theory Spec2Isabelle
  imports Complex_Main "HOL-Library.Option_ord" "HOL-Library.Sublist"
begin

section \<open>The transcription script: data model\<close>

text \<open>
  The script \<^verbatim>\<open>transcript.py\<close> glues the Whisper library to a Gradio widget.
  The library calls are not part of the script, so they are parameters of the model:
  a record of functions, each returning either the exception it raises (\<open>Inl\<close>)
  or its value (\<open>Inr\<close>). The audio buffer, the spectrogram tensor and the model
  handle are opaque to the script and stay type variables \<open>'a\<close>, \<open>'m\<close>, \<open>'h\<close>;
  probabilities are Python floats compared with \<open><\<close>, here any linear order \<open>'p\<close>
  (a NaN is outside the model).
\<close>

type_synonym bytes = "char list"

text \<open>
  An instance of Python's \<^verbatim>\<open>Exception\<close>: its class name and \<^verbatim>\<open>str(e)\<close>, the
  text an f-string \<^verbatim>\<open>{e}\<close> prints. Every \<^verbatim>\<open>except\<close> clause of the script is
  \<^verbatim>\<open>except Exception\<close>, so these are the exceptions it can catch.
\<close>

datatype exn = Exn (exn_class: string) (exn_str: string)

text \<open>\<^verbatim>\<open>whisper.DecodingOptions\<close>: the two fields the script sets.\<close>

record DecodingOptions =
  fp16 :: bool
  language :: "string option"

text \<open>\<^verbatim>\<open>whisper.DecodingResult\<close>: the script reads its \<^verbatim>\<open>text\<close> attribute only.\<close>

record DecodingResult =
  result_tokens :: "nat list"
  result_text :: string

text \<open>The library calls the script makes, as they appear in the trace of a run.\<close>

datatype ('a, 'm, 'h) call =
    is_LoadModel: LoadModel string string
  | LoadAudio string
  | PadOrTrim 'a
  | LogMelSpectrogram 'a string
  | DetectLanguage 'h 'm
  | Decode 'h 'm DecodingOptions

text \<open>
  The library. \<open>load_audio\<close> is given the path and what the file system holds
  there; \<open>log_mel_spectrogram x d\<close> is \<^verbatim>\<open>whisper.log_mel_spectrogram(x).to(d)\<close>;
  \<open>detect_language\<close> returns the language token and the probability dictionary, an
  association list in the dictionary's iteration order; \<open>format4f\<close> is the float
  format \<^verbatim>\<open>:.4f\<close>.
\<close>

record ('a, 'm, 'h, 'p) whisper =
  load_model :: "string \<Rightarrow> string \<Rightarrow> exn + 'h"
  device :: "'h \<Rightarrow> string"
  load_audio :: "string \<Rightarrow> bytes option \<Rightarrow> exn + 'a"
  pad_or_trim :: "'a \<Rightarrow> exn + 'a"
  log_mel_spectrogram :: "'a \<Rightarrow> string \<Rightarrow> exn + 'm"
  detect_language :: "'h \<Rightarrow> 'm \<Rightarrow> exn + (nat \<times> (string \<times> 'p) list)"
  decode :: "'h \<Rightarrow> 'm \<Rightarrow> DecodingOptions \<Rightarrow> exn + DecodingResult"
  format4f :: "'p \<Rightarrow> string"

text \<open>
  What the process can observe and change: the files, the lines printed so far and
  the library calls made so far. Once the model is loaded the global \<^verbatim>\<open>model\<close> is
  part of the state.
\<close>

record ('a, 'm, 'h) world =
  files :: "string \<Rightarrow> bytes option"
  stdout :: "string list"
  calls :: "('a, 'm, 'h) call list"

record ('a, 'm, 'h) state = "('a, 'm, 'h) world" +
  model :: 'h

definition print :: "string \<Rightarrow> ('a, 'm, 'h, 'z) world_scheme \<Rightarrow> ('a, 'm, 'h, 'z) world_scheme" where
  "print line s = s\<lparr>stdout := stdout s @ [line]\<rparr>"

definition log_call ::
  "('a, 'm, 'h) call \<Rightarrow> ('a, 'm, 'h, 'z) world_scheme \<Rightarrow> ('a, 'm, 'h, 'z) world_scheme" where
  "log_call c s = s\<lparr>calls := calls s @ [c]\<rparr>"

section \<open>The builtin max with a key function\<close>

text \<open>
  \<^verbatim>\<open>max(iterable, key=f)\<close> keeps the first item and replaces it only by an item
  whose key is strictly greater, so of several maximal items the first one wins. On an
  empty iterable it raises \<^verbatim>\<open>ValueError\<close>. The script's key function is
  \<^verbatim>\<open>probs.get\<close>, whose values are options; it is only applied to keys of \<^verbatim>\<open>probs\<close>,
  so it compares \<open>Some p\<close> with \<open>Some q\<close>, which the order on options does as
  \<open>p\<close> with \<open>q\<close>.
\<close>

fun max_from :: "('k \<Rightarrow> 'v::linorder) \<Rightarrow> 'k \<Rightarrow> 'k list \<Rightarrow> 'k" where
  "max_from key best [] = best"
| "max_from key best (x # xs) = max_from key (if key best < key x then x else best) xs"

definition py_max :: "'k list \<Rightarrow> ('k \<Rightarrow> 'v::linorder) \<Rightarrow> exn + 'k" where
  "py_max xs key =
     (case xs of
        [] \<Rightarrow> Inl (Exn ''ValueError'' ''max() arg is an empty sequence'')
      | x # rest \<Rightarrow> Inr (max_from key x rest))"

section \<open>The transcription handler\<close>

text \<open>
  \<^verbatim>\<open>transcribe(audio_filepath)\<close>, lines 27 to 68. The result is \<open>Inr\<close> of the
  returned string or \<open>Inl\<close> of the exception that leaves the function, together with
  the state after the call. \<^verbatim>\<open>probs.get\<close> is \<open>map_of probs\<close>, iterating the
  dictionary is \<open>map fst probs\<close>, and \<^verbatim>\<open>probs[k]\<close> raises \<^verbatim>\<open>KeyError\<close> on a
  missing key.
\<close>

definition transcribe ::
  "('a, 'm, 'h, 'p::linorder) whisper \<Rightarrow> ('a, 'm, 'h) state \<Rightarrow> string option
     \<Rightarrow> (exn + string) \<times> ('a, 'm, 'h) state" where
  "transcribe W s audio_filepath =
     (case audio_filepath of
        None \<Rightarrow> (Inr ''Please provide audio input.'', s)
      | Some fp \<Rightarrow>
          let s1 = log_call (LoadAudio fp) s in
          (case load_audio W fp (files s fp) of
             Inl e \<Rightarrow> (Inr (''Error processing audio file: '' @ exn_str e), s1)
           | Inr audio0 \<Rightarrow>
               let s2 = log_call (PadOrTrim audio0) s1 in
               (case pad_or_trim W audio0 of
                  Inl e \<Rightarrow> (Inr (''Error processing audio file: '' @ exn_str e), s2)
                | Inr audio \<Rightarrow>
                    let s3 = log_call (LogMelSpectrogram audio (device W (model s))) s2 in
                    (case log_mel_spectrogram W audio (device W (model s)) of
                       Inl e \<Rightarrow> (Inl e, s3)
                     | Inr mel \<Rightarrow>
                         let s4 = log_call (DetectLanguage (model s) mel) s3 in
                         (case detect_language W (model s) mel of
                            Inl e \<Rightarrow> (Inl e, s4)
                          | Inr (_, probs) \<Rightarrow>
                              (case py_max (map fst probs) (map_of probs) of
                                 Inl e \<Rightarrow> (Inl e, s4)
                               | Inr detected_language \<Rightarrow>
                                   (case map_of probs detected_language of
                                      None \<Rightarrow> (Inl (Exn ''KeyError'' detected_language), s4)
                                    | Some p \<Rightarrow>
                                        let s5 = print (''Detected language: '' @ detected_language
                                                   @ '' with probability '' @ format4f W p) s4;
                                            options = \<lparr>fp16 = False,
                                                       language = Some detected_language\<rparr>;
                                            s6 = log_call (Decode (model s) mel options) s5
                                        in (case decode W (model s) mel options of
                                              Inl e \<Rightarrow>
                                                (Inr (''Error during decoding: '' @ exn_str e), s6)
                                            | Inr result \<Rightarrow> (Inr (result_text result), s6)))))))))"

section \<open>Startup and the serving loop\<close>

text \<open>
  Lines 10 to 24: the module prints that it loads the model, calls
  \<^verbatim>\<open>whisper.load_model(WHISPER_MODEL_SIZE, device="cpu")\<close> inside a \<^verbatim>\<open>try\<close>, and on
  an exception prints two lines and calls \<^verbatim>\<open>exit()\<close>. \<open>startup\<close> returns \<open>Inl\<close> of
  the world the process exits in, or \<open>Inr\<close> of the state that holds the loaded model:
  the world so far extended by the global \<^verbatim>\<open>model\<close>.
\<close>

definition WHISPER_MODEL_SIZE :: string where
  "WHISPER_MODEL_SIZE = ''tiny''"

definition startup ::
  "('a, 'm, 'h, 'p) whisper \<Rightarrow> ('a, 'm, 'h) world \<Rightarrow> ('a, 'm, 'h) world + ('a, 'm, 'h) state" where
  "startup W w =
     (let w1 = print (''Loading Whisper model: '' @ WHISPER_MODEL_SIZE @ ''...'') w;
          w2 = log_call (LoadModel WHISPER_MODEL_SIZE ''cpu'') w1
      in case load_model W WHISPER_MODEL_SIZE ''cpu'' of
           Inr m \<Rightarrow>
             Inr (print (''Whisper model '' @ [CHR 0x27] @ WHISPER_MODEL_SIZE @ [CHR 0x27]
                          @ '' loaded successfully on CPU.'')
                    (world.extend w2 (state.fields m)))
         | Inl e \<Rightarrow>
             Inl (print ''Please ensure you have an internet connection for download (if not cached) and sufficient memory.''
                    (print (''Error loading Whisper model: '' @ exn_str e) w2)))"

text \<open>
  Lines 71 to 91: the script prints that it launches the interface and hands
  \<^verbatim>\<open>transcribe\<close> to \<^verbatim>\<open>gr.Interface(...).launch()\<close>. What the GUI library does is
  not part of the script; here it calls the handler once for each request of a list,
  one after the other, and then either returns (\<open>None\<close>) or raises (\<open>Some e\<close>), in
  which case the script prints two more lines. \<open>main\<close> is the whole script: the final
  world or state and the handler's outcome for each request.
\<close>

fun serve ::
  "('a, 'm, 'h, 'p::linorder) whisper \<Rightarrow> ('a, 'm, 'h) state \<Rightarrow> string option list
     \<Rightarrow> (exn + string) list \<times> ('a, 'm, 'h) state" where
  "serve W s [] = ([], s)"
| "serve W s (r # rs) =
     (let (out, s') = transcribe W s r;
          (outs, s'') = serve W s' rs
      in (out # outs, s''))"

definition main ::
  "('a, 'm, 'h, 'p::linorder) whisper \<Rightarrow> ('a, 'm, 'h) world \<Rightarrow> string option list \<Rightarrow> exn option
     \<Rightarrow> (('a, 'm, 'h) world + ('a, 'm, 'h) state) \<times> (exn + string) list" where
  "main W w requests launch_error =
     (case startup W w of
        Inl w' \<Rightarrow> (Inl w', [])
      | Inr s \<Rightarrow>
          let s1 = print (CHR 0x0A # ''Launching Gradio Web UI...'') s;
              (outs, s2) = serve W s1 requests
          in (case launch_error of
                None \<Rightarrow> (Inr s2, outs)
              | Some e \<Rightarrow>
                  (Inr (print ''Please ensure Gradio is installed (`pip install gradio`) and your port is available.''
                         (print (''Error launching Gradio interface: '' @ exn_str e) s2)),
                   outs)))"

section \<open>An example library and example states\<close>

text \<open>
  A small library on which the definitions above can be run: audio and spectrograms
  are lists of numbers, the model handle is a string, a missing file makes
  \<open>load_audio\<close> raise, and language detection finds German and French equally
  likely, German first. The variants make one call raise the exception \<open>boom\<close>;
  \<open>echo_whisper\<close> decodes to a text that shows the language hint it was given.
\<close>

definition demo_probs :: "(string \<times> real) list" where
  "demo_probs = [(''en'', 1/10), (''de'', 9/10), (''fr'', 9/10)]"

definition demo_whisper :: "(nat list, nat list, string, real) whisper" where
  "demo_whisper =
     \<lparr>load_model = (\<lambda>size dev. Inr (size @ ''@'' @ dev)),
      device = (\<lambda>h. ''cpu''),
      load_audio = (\<lambda>fp contents. case contents of
                       None \<Rightarrow> Inl (Exn ''RuntimeError'' (''Failed to load audio: '' @ fp))
                     | Some b \<Rightarrow> Inr (map of_char b)),
      pad_or_trim = (\<lambda>a. Inr (take 4 (a @ [0, 0, 0, 0]))),
      log_mel_spectrogram = (\<lambda>a d. Inr (rev a)),
      detect_language = (\<lambda>h x. Inr (50259, demo_probs)),
      decode = (\<lambda>h x opts. Inr \<lparr>result_tokens = x, result_text = ''hallo''\<rparr>),
      format4f = (\<lambda>p. if p = 9/10 then ''0.9000'' else ''0.1000'')\<rparr>"

definition demo_state :: "(nat list, nat list, string) state" where
  "demo_state = \<lparr>files = [''clip.wav'' \<mapsto> ''ab''], stdout = [], calls = [], model = ''tiny@cpu''\<rparr>"

definition boom :: exn where
  "boom = Exn ''RuntimeError'' ''boom''"

definition load_failing_whisper :: "(nat list, nat list, string, real) whisper" where
  "load_failing_whisper = demo_whisper\<lparr>load_audio := (\<lambda>fp contents. Inl boom)\<rparr>"

definition pad_failing_whisper :: "(nat list, nat list, string, real) whisper" where
  "pad_failing_whisper = demo_whisper\<lparr>pad_or_trim := (\<lambda>a. Inl boom)\<rparr>"

definition mel_failing_whisper :: "(nat list, nat list, string, real) whisper" where
  "mel_failing_whisper = demo_whisper\<lparr>log_mel_spectrogram := (\<lambda>a d. Inl boom)\<rparr>"

definition decode_failing_whisper :: "(nat list, nat list, string, real) whisper" where
  "decode_failing_whisper = demo_whisper\<lparr>decode := (\<lambda>h x opts. Inl boom)\<rparr>"

definition model_failing_whisper :: "(nat list, nat list, string, real) whisper" where
  "model_failing_whisper = demo_whisper\<lparr>load_model := (\<lambda>size dev. Inl boom)\<rparr>"

definition detect_failing_whisper :: "(nat list, nat list, string, real) whisper" where
  "detect_failing_whisper = demo_whisper\<lparr>detect_language := (\<lambda>h x. Inl boom)\<rparr>"

definition no_language_whisper :: "(nat list, nat list, string, real) whisper" where
  "no_language_whisper = demo_whisper\<lparr>detect_language := (\<lambda>h x. Inr (50259, []))\<rparr>"

definition echo_whisper :: "(nat list, nat list, string, real) whisper" where
  "echo_whisper =
     demo_whisper\<lparr>decode := (\<lambda>h x opts. Inr \<lparr>result_tokens = x,
        result_text = (case language opts of None \<Rightarrow> ''no hint'' | Some l \<Rightarrow> ''hint '' @ l)\<rparr>)\<rparr>"

definition demo_world :: "(nat list, nat list, string) world" where
  "demo_world = \<lparr>files = [''clip.wav'' \<mapsto> ''ab''], stdout = [], calls = []\<rparr>"

definition busy_state :: "(nat list, nat list, string) state" where
  "busy_state =
     \<lparr>files = [''clip.wav'' \<mapsto> ''ab'', ''other.wav'' \<mapsto> ''zz''],
      stdout = [''earlier output''],
      calls = [LoadModel ''tiny'' ''cpu'', LoadAudio ''other.wav''],
      model = ''tiny@cpu''\<rparr>"

lemmas demo_defs =
  demo_whisper_def demo_probs_def demo_state_def demo_world_def busy_state_def boom_def
  load_failing_whisper_def pad_failing_whisper_def mel_failing_whisper_def
  decode_failing_whisper_def model_failing_whisper_def
  detect_failing_whisper_def no_language_whisper_def

section \<open>Basic facts\<close>

lemma world_simps [simp]:
  "calls (print l s) = calls s" "stdout (print l s) = stdout s @ [l]" "files (print l s) = files s"
  "calls (log_call c s) = calls s @ [c]" "stdout (log_call c s) = stdout s" "files (log_call c s) = files s"
  by (simp_all add: print_def log_call_def)

lemma model_simps [simp]:
  "model (print l s) = model s" "model (log_call c s) = model s"
  by (simp_all add: print_def log_call_def)

lemma max_from_first_max:
  "\<exists>ys zs. best # xs = ys @ max_from key best xs # zs
     \<and> (\<forall>y\<in>set ys. key y < key (max_from key best xs))
     \<and> (\<forall>z\<in>set zs. key z \<le> key (max_from key best xs))"
proof (induction xs arbitrary: best)
  case Nil
  have "[best] = [] @ max_from key best [] # []
      \<and> (\<forall>y\<in>set []. key y < key (max_from key best []))
      \<and> (\<forall>z\<in>set []. key z \<le> key (max_from key best []))"
    by simp
  then show ?case by blast
next
  case (Cons x xs)
  show ?case
  proof (cases "key best < key x")
    case True
    define m where "m = max_from key x xs"
    have step: "max_from key best (x # xs) = m"
      using True by (simp add: m_def)
    from Cons [of x] obtain ys zs where
      split: "x # xs = ys @ m # zs" and
      lo: "\<forall>y\<in>set ys. key y < key m" and
      hi: "\<forall>z\<in>set zs. key z \<le> key m"
      unfolding m_def by blast
    have "key x \<le> key m"
    proof (cases ys)
      case Nil
      with split show ?thesis by simp
    next
      case (Cons y ys')
      with split lo show ?thesis by auto
    qed
    with True have "key best < key m" by simp
    with lo have lo': "\<forall>y\<in>set (best # ys). key y < key m" by simp
    from split have "best # x # xs = (best # ys) @ m # zs" by simp
    with lo' hi show ?thesis unfolding step by blast
  next
    case False
    define m where "m = max_from key best xs"
    have step: "max_from key best (x # xs) = m"
      using False by (simp add: m_def)
    from Cons [of best] obtain ys zs where
      split: "best # xs = ys @ m # zs" and
      lo: "\<forall>y\<in>set ys. key y < key m" and
      hi: "\<forall>z\<in>set zs. key z \<le> key m"
      unfolding m_def by blast
    show ?thesis
    proof (cases ys)
      case Nil
      with split have bm: "best = m" and xz: "xs = zs" by simp_all
      from False bm hi have hi': "\<forall>z\<in>set (x # zs). key z \<le> key m" by auto
      from bm xz have "best # x # xs = [] @ m # (x # zs)" by simp
      with hi' show ?thesis unfolding step by (metis empty_iff empty_set)
    next
      case (Cons y ys')
      with split have hd_eq: "best = y" and xs: "xs = ys' @ m # zs" by simp_all
      from Cons hd_eq lo have "key best < key m" by simp
      with False have "key x < key m" by simp
      with lo Cons hd_eq have lo': "\<forall>y\<in>set (best # x # ys'). key y < key m" by simp
      from xs have "best # x # xs = (best # x # ys') @ m # zs" by simp
      with lo' hi show ?thesis unfolding step by blast
    qed
  qed
qed

lemma py_max_first_max:
  assumes "py_max xs key = Inr k"
  shows "\<exists>ys zs. xs = ys @ k # zs \<and> (\<forall>y\<in>set ys. key y < key k) \<and> (\<forall>z\<in>set zs. key z \<le> key k)"
proof (cases xs)
  case Nil
  with assms show ?thesis by (simp add: py_max_def)
next
  case (Cons x rest)
  with assms have "k = max_from key x rest" by (simp add: py_max_def)
  with Cons max_from_first_max [of x rest key] show ?thesis by simp
qed

lemma py_max_empty: "py_max [] key = Inl (Exn ''ValueError'' ''max() arg is an empty sequence'')"
  by (simp add: py_max_def)

lemma py_max_key_present:
  assumes "py_max (map fst probs) (map_of probs) = Inr k"
  shows "\<exists>p. map_of probs k = Some p"
proof -
  from py_max_first_max [OF assms] obtain ys zs where "map fst probs = ys @ k # zs"
    by blast
  then have "k \<in> set (map fst probs)" by simp
  then have "map_of probs k \<noteq> None" by (simp add: map_of_eq_None_iff)
  then show ?thesis by auto
qed

lemma transcribe_load_error:
  "load_audio W fp (files s fp) = Inl e \<Longrightarrow>
   transcribe W s (Some fp) =
     (Inr (''Error processing audio file: '' @ exn_str e), log_call (LoadAudio fp) s)"
  by (simp add: transcribe_def)

lemma transcribe_pad_error:
  "load_audio W fp (files s fp) = Inr audio0 \<Longrightarrow> pad_or_trim W audio0 = Inl e \<Longrightarrow>
   transcribe W s (Some fp) =
     (Inr (''Error processing audio file: '' @ exn_str e),
      log_call (PadOrTrim audio0) (log_call (LoadAudio fp) s))"
  by (simp add: transcribe_def)

lemma transcribe_mel_error:
  "load_audio W fp (files s fp) = Inr audio0 \<Longrightarrow> pad_or_trim W audio0 = Inr audio \<Longrightarrow>
   log_mel_spectrogram W audio (device W (model s)) = Inl e \<Longrightarrow>
   fst (transcribe W s (Some fp)) = Inl e"
  by (simp add: transcribe_def)

lemma transcribe_detect_error:
  "load_audio W fp (files s fp) = Inr audio0 \<Longrightarrow> pad_or_trim W audio0 = Inr audio \<Longrightarrow>
   log_mel_spectrogram W audio (device W (model s)) = Inr mel \<Longrightarrow>
   detect_language W (model s) mel = Inl e \<Longrightarrow>
   fst (transcribe W s (Some fp)) = Inl e"
  by (simp add: transcribe_def)

lemma transcribe_decoding:
  assumes "load_audio W fp (files s fp) = Inr audio0"
      and "pad_or_trim W audio0 = Inr audio"
      and "log_mel_spectrogram W audio (device W (model s)) = Inr mel"
      and "detect_language W (model s) mel = Inr (tok, probs)"
      and "py_max (map fst probs) (map_of probs) = Inr lang"
      and "map_of probs lang = Some p"
  shows "transcribe W s (Some fp) =
     (case decode W (model s) mel \<lparr>fp16 = False, language = Some lang\<rparr> of
        Inl e \<Rightarrow> Inr (''Error during decoding: '' @ exn_str e)
      | Inr result \<Rightarrow> Inr (result_text result),
      s\<lparr>stdout := stdout s @ [''Detected language: '' @ lang @ '' with probability '' @ format4f W p],
        calls := calls s @
          [LoadAudio fp, PadOrTrim audio0, LogMelSpectrogram audio (device W (model s)),
           DetectLanguage (model s) mel,
           Decode (model s) mel \<lparr>fp16 = False, language = Some lang\<rparr>]\<rparr>)"
  using assms by (simp add: transcribe_def print_def log_call_def split: sum.splits)

lemma transcribe_decode_call:
  assumes "calls (snd (transcribe W s fp)) = calls s @ cs"
      and "Decode h x opts \<in> set cs"
  shows "\<exists>path audio0 audio tok probs lang p.
           fp = Some path \<and> h = model s
         \<and> load_audio W path (files s path) = Inr audio0
         \<and> pad_or_trim W audio0 = Inr audio
         \<and> log_mel_spectrogram W audio (device W (model s)) = Inr x
         \<and> detect_language W (model s) x = Inr (tok, probs)
         \<and> py_max (map fst probs) (map_of probs) = Inr lang
         \<and> map_of probs lang = Some p
         \<and> opts = \<lparr>fp16 = False, language = Some lang\<rparr>"
  using assms
  by (auto simp add: transcribe_def Let_def split: option.splits sum.splits prod.splits)

lemma transcribe_model: "model (snd (transcribe W s fp)) = model s"
  by (simp add: transcribe_def Let_def split: option.splits sum.splits prod.splits)

lemma transcribe_no_load_model:
  "filter is_LoadModel (calls (snd (transcribe W s fp))) = filter is_LoadModel (calls s)"
  by (simp add: transcribe_def Let_def split: option.splits sum.splits prod.splits)

lemma serve_model: "model (snd (serve W s rs)) = model s"
proof (induction rs arbitrary: s)
  case Nil
  show ?case by simp
next
  case (Cons r rs)
  from Cons [of "snd (transcribe W s r)"] transcribe_model [of W s r]
  show ?case by (simp add: split_beta)
qed

lemma serve_no_load_model:
  "filter is_LoadModel (calls (snd (serve W s rs))) = filter is_LoadModel (calls s)"
proof (induction rs arbitrary: s)
  case Nil
  show ?case by simp
next
  case (Cons r rs)
  from Cons [of "snd (transcribe W s r)"] transcribe_no_load_model [of W s r]
  show ?case by (simp add: split_beta)
qed

lemma startup_loaded:
  assumes "startup W w = Inr s"
  shows "load_model W WHISPER_MODEL_SIZE ''cpu'' = Inr (model s)
       \<and> calls s = calls w @ [LoadModel WHISPER_MODEL_SIZE ''cpu'']"
  using assms
  by (auto simp add: startup_def Let_def print_def log_call_def world.defs state.defs
      split: sum.splits)

section \<open>The example run\<close>

lemma demo_run:
  "load_audio demo_whisper ''clip.wav'' (files demo_state ''clip.wav'') = Inr [97, 98]"
  "pad_or_trim demo_whisper [97, 98] = Inr [97, 98, 0, 0]"
  "log_mel_spectrogram demo_whisper [97, 98, 0, 0] (device demo_whisper (model demo_state))
     = Inr [0, 0, 98, 97]"
  "detect_language demo_whisper (model demo_state) [0, 0, 98, 97] = Inr (50259, demo_probs)"
  "py_max (map fst demo_probs) (map_of demo_probs) = Inr ''de''"
  "decode demo_whisper (model demo_state) [0, 0, 98, 97] \<lparr>fp16 = False, language = Some ''de''\<rparr>
     = Inr \<lparr>result_tokens = [0, 0, 98, 97], result_text = ''hallo''\<rparr>"
  by (simp_all add: demo_defs py_max_def)



lemma demo_trace_decode:
  "Decode ''tiny@cpu'' [0, 0, 98, 97] \<lparr>fp16 = False, language = Some ''de''\<rparr>
     \<in> set [LoadAudio ''clip.wav'', PadOrTrim [97, 98],
            LogMelSpectrogram [97, 98, 0, 0] ''cpu'',
            DetectLanguage ''tiny@cpu'' [0, 0, 98, 97],
            Decode ''tiny@cpu'' [0, 0, 98, 97] \<lparr>fp16 = False, language = Some ''de''\<rparr>]"
  by simp

lemma echo_trace:
  "calls (snd (transcribe echo_whisper demo_state (Some ''clip.wav''))) =
     calls demo_state @
       [LoadAudio ''clip.wav'', PadOrTrim [97, 98],
        LogMelSpectrogram [97, 98, 0, 0] ''cpu'',
        DetectLanguage ''tiny@cpu'' [0, 0, 98, 97],
        Decode ''tiny@cpu'' [0, 0, 98, 97] \<lparr>fp16 = False, language = Some ''de''\<rparr>]"
  by (simp add: transcribe_def py_max_def demo_defs echo_whisper_def)

lemma echo_decode:
  "decode echo_whisper h x opts =
     Inr \<lparr>result_tokens = x,
          result_text = (case language opts of None \<Rightarrow> ''no hint'' | Some l \<Rightarrow> ''hint '' @ l)\<rparr>"
  by (simp add: echo_whisper_def demo_whisper_def)

lemma demo_main:
  "fst (main demo_whisper demo_world [Some ''clip.wav'', None, Some ''missing.wav''] None) =
     Inr \<lparr>files = [''clip.wav'' \<mapsto> ''ab''],
           stdout = [''Loading Whisper model: tiny...'',
                     ''Whisper model '' @ [CHR 0x27] @ ''tiny'' @ [CHR 0x27] @ '' loaded successfully on CPU.'',
                     CHR 0x0A # ''Launching Gradio Web UI...'',
                     ''Detected language: de with probability 0.9000''],
           calls = [LoadModel ''tiny'' ''cpu'', LoadAudio ''clip.wav'', PadOrTrim [97, 98],
                    LogMelSpectrogram [97, 98, 0, 0] ''cpu'',
                    DetectLanguage ''tiny@cpu'' [0, 0, 98, 97],
                    Decode ''tiny@cpu'' [0, 0, 98, 97] \<lparr>fp16 = False, language = Some ''de''\<rparr>,
                    LoadAudio ''missing.wav''],
           model = ''tiny@cpu''\<rparr>"
  by (simp add: main_def startup_def transcribe_def py_max_def demo_defs WHISPER_MODEL_SIZE_def
      print_def log_call_def world.defs state.defs)

section \<open>The handler without audio\<close>

text \<open>
  C4. When the filepath is absent (\<^verbatim>\<open>None\<close>), \<^verbatim>\<open>transcribe\<close> returns the fixed
  message "Please provide audio input." and does nothing else: no library call is made
  and the state (trace of calls, printed lines, model) is the one it started from.
\<close>

theorem transcribe_no_audio:
  "transcribe W s None = (Inr ''Please provide audio input.'', s)"
  by (simp add: transcribe_def)

section \<open>Exceptions inside the handler\<close>

text \<open>
  C1, as the claim states it, fails on the code. The claim says that an exception at
  any step is turned into a returned string, the same way at every step. In the
  example run an exception of the spectrogram step leaves the handler as an exception
  (lines 51 to 57 are outside both \<^verbatim>\<open>try\<close> blocks), and the same exception raised by
  loading and by decoding gives two different strings.
\<close>

theorem transcribe_uncaught_counterexample:
  "fst (transcribe mel_failing_whisper demo_state (Some ''clip.wav'')) = Inl boom
   \<and> fst (transcribe load_failing_whisper demo_state (Some ''clip.wav''))
       = Inr ''Error processing audio file: boom''
   \<and> fst (transcribe decode_failing_whisper demo_state (Some ''clip.wav''))
       = Inr ''Error during decoding: boom''"
  by (simp add: transcribe_def demo_defs py_max_def)

text \<open>
  C1, amended. An exception raised by audio loading or by pad/trim is caught and the
  handler returns "Error processing audio file: " followed by the exception's text; an
  exception raised by decoding is caught and the handler returns
  "Error during decoding: " followed by the exception's text. The two steps are told
  apart by their prefix. Nothing is said here about the spectrogram and the language
  detection steps.
\<close>

theorem transcribe_caught_exceptions:
  "(load_audio W fp (files s fp) = Inl e \<longrightarrow>
      fst (transcribe W s (Some fp)) = Inr (''Error processing audio file: '' @ exn_str e))
   \<and> (load_audio W fp (files s fp) = Inr audio0 \<and> pad_or_trim W audio0 = Inl e \<longrightarrow>
      fst (transcribe W s (Some fp)) = Inr (''Error processing audio file: '' @ exn_str e))
   \<and> (load_audio W fp (files s fp) = Inr audio0 \<and> pad_or_trim W audio0 = Inr audio
       \<and> log_mel_spectrogram W audio (device W (model s)) = Inr mel
       \<and> detect_language W (model s) mel = Inr (tok, probs)
       \<and> py_max (map fst probs) (map_of probs) = Inr lang
       \<and> decode W (model s) mel \<lparr>fp16 = False, language = Some lang\<rparr> = Inl e \<longrightarrow>
      fst (transcribe W s (Some fp)) = Inr (''Error during decoding: '' @ exn_str e))"
proof (intro conjI impI)
  assume "load_audio W fp (files s fp) = Inl e"
  then show "fst (transcribe W s (Some fp)) = Inr (''Error processing audio file: '' @ exn_str e)"
    by (simp add: transcribe_load_error)
next
  assume "load_audio W fp (files s fp) = Inr audio0 \<and> pad_or_trim W audio0 = Inl e"
  then show "fst (transcribe W s (Some fp)) = Inr (''Error processing audio file: '' @ exn_str e)"
    by (simp add: transcribe_pad_error)
next
  assume a: "load_audio W fp (files s fp) = Inr audio0 \<and> pad_or_trim W audio0 = Inr audio
       \<and> log_mel_spectrogram W audio (device W (model s)) = Inr mel
       \<and> detect_language W (model s) mel = Inr (tok, probs)
       \<and> py_max (map fst probs) (map_of probs) = Inr lang
       \<and> decode W (model s) mel \<lparr>fp16 = False, language = Some lang\<rparr> = Inl e"
  from a have a1: "load_audio W fp (files s fp) = Inr audio0" by simp
  from a have a2: "pad_or_trim W audio0 = Inr audio" by simp
  from a have a3: "log_mel_spectrogram W audio (device W (model s)) = Inr mel" by simp
  from a have a4: "detect_language W (model s) mel = Inr (tok, probs)" by simp
  from a have a5: "py_max (map fst probs) (map_of probs) = Inr lang" by simp
  from a have a6: "decode W (model s) mel \<lparr>fp16 = False, language = Some lang\<rparr> = Inl e" by simp
  from py_max_key_present [OF a5] obtain p where p: "map_of probs lang = Some p" ..
  from transcribe_decoding [OF a1 a2 a3 a4 a5 p] a6
  show "fst (transcribe W s (Some fp)) = Inr (''Error during decoding: '' @ exn_str e)"
    by simp
qed

theorem transcribe_caught_exceptions_witness:
  "load_audio load_failing_whisper ''clip.wav'' (files demo_state ''clip.wav'') = Inl boom
   \<and> fst (transcribe load_failing_whisper demo_state (Some ''clip.wav''))
       = Inr ''Error processing audio file: boom''
   \<and> load_audio pad_failing_whisper ''clip.wav'' (files demo_state ''clip.wav'') = Inr [97, 98]
   \<and> pad_or_trim pad_failing_whisper [97, 98] = Inl boom
   \<and> fst (transcribe pad_failing_whisper demo_state (Some ''clip.wav''))
       = Inr ''Error processing audio file: boom''
   \<and> decode decode_failing_whisper (model demo_state) [0, 0, 98, 97]
        \<lparr>fp16 = False, language = Some ''de''\<rparr> = Inl boom
   \<and> fst (transcribe decode_failing_whisper demo_state (Some ''clip.wav''))
       = Inr ''Error during decoding: boom''"
proof -
  have l: "load_audio load_failing_whisper ''clip.wav'' (files demo_state ''clip.wav'') = Inl boom"
    by (simp add: demo_defs)
  have p: "load_audio pad_failing_whisper ''clip.wav'' (files demo_state ''clip.wav'') = Inr [97, 98]
      \<and> pad_or_trim pad_failing_whisper [97, 98] = Inl boom"
    by (simp add: demo_defs)
  have d: "load_audio decode_failing_whisper ''clip.wav'' (files demo_state ''clip.wav'') = Inr [97, 98]
      \<and> pad_or_trim decode_failing_whisper [97, 98] = Inr [97, 98, 0, 0]
      \<and> log_mel_spectrogram decode_failing_whisper [97, 98, 0, 0]
            (device decode_failing_whisper (model demo_state)) = Inr [0, 0, 98, 97]
      \<and> detect_language decode_failing_whisper (model demo_state) [0, 0, 98, 97]
            = Inr (50259, demo_probs)
      \<and> py_max (map fst demo_probs)
            (map_of demo_probs) = Inr ''de''
      \<and> decode decode_failing_whisper (model demo_state) [0, 0, 98, 97]
            \<lparr>fp16 = False, language = Some ''de''\<rparr> = Inl boom"
    by (simp add: demo_defs py_max_def)
  have cl: "fst (transcribe load_failing_whisper demo_state (Some ''clip.wav''))
      = Inr (''Error processing audio file: '' @ exn_str boom)"
    by (rule transcribe_caught_exceptions [THEN conjunct1, THEN mp, OF l])
  have cp: "fst (transcribe pad_failing_whisper demo_state (Some ''clip.wav''))
      = Inr (''Error processing audio file: '' @ exn_str boom)"
    by (rule transcribe_caught_exceptions [THEN conjunct2, THEN conjunct1, THEN mp, OF p])
  have cd: "fst (transcribe decode_failing_whisper demo_state (Some ''clip.wav''))
      = Inr (''Error during decoding: '' @ exn_str boom)"
    by (rule transcribe_caught_exceptions [THEN conjunct2, THEN conjunct2, THEN mp, OF d])
  from l p d cl cp cd show ?thesis by (simp add: boom_def)
qed

text \<open>
  C3. When audio loading or pad/trim raises, \<^verbatim>\<open>transcribe\<close> does not raise: it
  returns the string "Error processing audio file: " followed by the exception's text,
  which contains "Error processing audio file".
\<close>

theorem transcribe_unreadable_audio:
  assumes "load_audio W fp (files s fp) = Inl e
         \<or> (\<exists>audio0. load_audio W fp (files s fp) = Inr audio0 \<and> pad_or_trim W audio0 = Inl e)"
  shows "fst (transcribe W s (Some fp)) = Inr (''Error processing audio file: '' @ exn_str e)
       \<and> sublist ''Error processing audio file'' (''Error processing audio file: '' @ exn_str e)"
proof
  from assms show "fst (transcribe W s (Some fp)) = Inr (''Error processing audio file: '' @ exn_str e)"
  proof
    assume "load_audio W fp (files s fp) = Inl e"
    then show ?thesis by (simp add: transcribe_load_error)
  next
    assume "\<exists>audio0. load_audio W fp (files s fp) = Inr audio0 \<and> pad_or_trim W audio0 = Inl e"
    then obtain audio0 where l: "load_audio W fp (files s fp) = Inr audio0"
      and p: "pad_or_trim W audio0 = Inl e"
      by auto
    from transcribe_pad_error [OF l p] show ?thesis by simp
  qed
next
  have "''Error processing audio file: '' @ exn_str e
      = [] @ ''Error processing audio file'' @ ('': '' @ exn_str e)"
    by simp
  then show "sublist ''Error processing audio file'' (''Error processing audio file: '' @ exn_str e)"
    unfolding sublist_def by blast
qed

theorem transcribe_unreadable_audio_witness:
  "load_audio demo_whisper ''missing.wav'' (files demo_state ''missing.wav'')
     = Inl (Exn ''RuntimeError'' ''Failed to load audio: missing.wav'')
   \<and> fst (transcribe demo_whisper demo_state (Some ''missing.wav''))
     = Inr ''Error processing audio file: Failed to load audio: missing.wav''
   \<and> load_audio pad_failing_whisper ''clip.wav'' (files demo_state ''clip.wav'') = Inr [97, 98]
   \<and> pad_or_trim pad_failing_whisper [97, 98] = Inl boom
   \<and> fst (transcribe pad_failing_whisper demo_state (Some ''clip.wav''))
     = Inr ''Error processing audio file: boom''"
proof -
  have l: "load_audio demo_whisper ''missing.wav'' (files demo_state ''missing.wav'')
     = Inl (Exn ''RuntimeError'' ''Failed to load audio: missing.wav'')"
    by (simp add: demo_defs)
  have p: "load_audio pad_failing_whisper ''clip.wav'' (files demo_state ''clip.wav'') = Inr [97, 98]
     \<and> pad_or_trim pad_failing_whisper [97, 98] = Inl boom"
    by (simp add: demo_defs)
  then have p': "\<exists>audio0. load_audio pad_failing_whisper ''clip.wav'' (files demo_state ''clip.wav'')
       = Inr audio0 \<and> pad_or_trim pad_failing_whisper audio0 = Inl boom"
    by (rule exI)
  note r1 = transcribe_unreadable_audio [OF disjI1, OF l, THEN conjunct1]
  note r2 = transcribe_unreadable_audio [OF disjI2, OF p', THEN conjunct1]
  from l p r1 r2 show ?thesis by (simp add: boom_def)
qed

text \<open>
  X1. The steps between the two \<^verbatim>\<open>try\<close> blocks are not guarded: once the audio is
  loaded and padded, an exception raised by the spectrogram computation or by language
  detection leaves \<^verbatim>\<open>transcribe\<close> as that exception, and an empty probability
  dictionary makes \<^verbatim>\<open>max\<close> raise a \<^verbatim>\<open>ValueError\<close> that leaves it too.
\<close>

theorem transcribe_uncaught_steps:
  assumes "load_audio W fp (files s fp) = Inr audio0"
      and "pad_or_trim W audio0 = Inr audio"
  shows "(log_mel_spectrogram W audio (device W (model s)) = Inl e \<longrightarrow>
            fst (transcribe W s (Some fp)) = Inl e)
       \<and> (log_mel_spectrogram W audio (device W (model s)) = Inr mel
            \<and> detect_language W (model s) mel = Inl e \<longrightarrow>
            fst (transcribe W s (Some fp)) = Inl e)
       \<and> (log_mel_spectrogram W audio (device W (model s)) = Inr mel
            \<and> detect_language W (model s) mel = Inr (tok, []) \<longrightarrow>
            fst (transcribe W s (Some fp))
              = Inl (Exn ''ValueError'' ''max() arg is an empty sequence''))"
proof (intro conjI impI)
  assume "log_mel_spectrogram W audio (device W (model s)) = Inl e"
  with assms show "fst (transcribe W s (Some fp)) = Inl e"
    by (rule transcribe_mel_error)
next
  assume "log_mel_spectrogram W audio (device W (model s)) = Inr mel
            \<and> detect_language W (model s) mel = Inl e"
  then have m: "log_mel_spectrogram W audio (device W (model s)) = Inr mel"
    and d: "detect_language W (model s) mel = Inl e"
    by simp_all
  from assms m d show "fst (transcribe W s (Some fp)) = Inl e"
    by (rule transcribe_detect_error)
next
  assume "log_mel_spectrogram W audio (device W (model s)) = Inr mel
            \<and> detect_language W (model s) mel = Inr (tok, [])"
  with assms show "fst (transcribe W s (Some fp))
              = Inl (Exn ''ValueError'' ''max() arg is an empty sequence'')"
    by (simp add: transcribe_def py_max_empty)
qed

theorem transcribe_uncaught_steps_witness:
  "fst (transcribe mel_failing_whisper demo_state (Some ''clip.wav'')) = Inl boom
   \<and> fst (transcribe detect_failing_whisper demo_state (Some ''clip.wav'')) = Inl boom
   \<and> fst (transcribe no_language_whisper demo_state (Some ''clip.wav''))
       = Inl (Exn ''ValueError'' ''max() arg is an empty sequence'')"
proof -
  have m: "load_audio mel_failing_whisper ''clip.wav'' (files demo_state ''clip.wav'') = Inr [97, 98]"
    "pad_or_trim mel_failing_whisper [97, 98] = Inr [97, 98, 0, 0]"
    "log_mel_spectrogram mel_failing_whisper [97, 98, 0, 0]
       (device mel_failing_whisper (model demo_state)) = Inl boom"
    by (simp_all add: demo_defs)
  have d: "load_audio detect_failing_whisper ''clip.wav'' (files demo_state ''clip.wav'') = Inr [97, 98]"
    "pad_or_trim detect_failing_whisper [97, 98] = Inr [97, 98, 0, 0]"
    "log_mel_spectrogram detect_failing_whisper [97, 98, 0, 0]
       (device detect_failing_whisper (model demo_state)) = Inr [0, 0, 98, 97]
     \<and> detect_language detect_failing_whisper (model demo_state) [0, 0, 98, 97] = Inl boom"
    by (simp_all add: demo_defs)
  have n: "load_audio no_language_whisper ''clip.wav'' (files demo_state ''clip.wav'') = Inr [97, 98]"
    "pad_or_trim no_language_whisper [97, 98] = Inr [97, 98, 0, 0]"
    "log_mel_spectrogram no_language_whisper [97, 98, 0, 0]
       (device no_language_whisper (model demo_state)) = Inr [0, 0, 98, 97]
     \<and> detect_language no_language_whisper (model demo_state) [0, 0, 98, 97] = Inr (50259, [])"
    by (simp_all add: demo_defs)
  note r1 = transcribe_uncaught_steps [OF m(1) m(2), THEN conjunct1, THEN mp, OF m(3)]
  note r2 = transcribe_uncaught_steps [OF d(1) d(2), THEN conjunct2, THEN conjunct1, THEN mp, OF d(3)]
  note r3 = transcribe_uncaught_steps [OF n(1) n(2), THEN conjunct2, THEN conjunct2, THEN mp, OF n(3)]
  from r1 r2 r3 show ?thesis by (intro conjI)
qed

section \<open>The success path\<close>

text \<open>
  C5. When every library call succeeds, \<^verbatim>\<open>transcribe\<close> makes exactly five library
  calls, in this order: load the audio, pad or trim it, compute the log-Mel
  spectrogram, detect the language, decode; and it returns the text of the decoding
  result. Each call is given the value the previous step produced. The only other
  effect is the line printed about the detected language; the model and the files are
  as before.
\<close>

theorem transcribe_success_pipeline:
  assumes "load_audio W fp (files s fp) = Inr audio0"
      and "pad_or_trim W audio0 = Inr audio"
      and "log_mel_spectrogram W audio (device W (model s)) = Inr mel"
      and "detect_language W (model s) mel = Inr (tok, probs)"
      and "py_max (map fst probs) (map_of probs) = Inr lang"
      and "decode W (model s) mel \<lparr>fp16 = False, language = Some lang\<rparr> = Inr result"
  shows "\<exists>p. map_of probs lang = Some p
       \<and> transcribe W s (Some fp) =
           (Inr (result_text result),
            s\<lparr>stdout := stdout s @
                   [''Detected language: '' @ lang @ '' with probability '' @ format4f W p],
              calls := calls s @
                   [LoadAudio fp, PadOrTrim audio0,
                    LogMelSpectrogram audio (device W (model s)),
                    DetectLanguage (model s) mel,
                    Decode (model s) mel \<lparr>fp16 = False, language = Some lang\<rparr>]\<rparr>)"
proof -
  from py_max_key_present [OF assms(5)] obtain p where p: "map_of probs lang = Some p" ..
  from transcribe_decoding [OF assms(1-5) p] assms(6)
  have "transcribe W s (Some fp) =
           (Inr (result_text result),
            s\<lparr>stdout := stdout s @
                   [''Detected language: '' @ lang @ '' with probability '' @ format4f W p],
              calls := calls s @
                   [LoadAudio fp, PadOrTrim audio0,
                    LogMelSpectrogram audio (device W (model s)),
                    DetectLanguage (model s) mel,
                    Decode (model s) mel \<lparr>fp16 = False, language = Some lang\<rparr>]\<rparr>)"
    by simp
  with p show ?thesis by (intro exI conjI)
qed

theorem transcribe_success_pipeline_witness:
  "transcribe demo_whisper demo_state (Some ''clip.wav'') =
     (Inr ''hallo'',
      demo_state\<lparr>stdout := [''Detected language: de with probability 0.9000''],
        calls := [LoadAudio ''clip.wav'', PadOrTrim [97, 98],
                  LogMelSpectrogram [97, 98, 0, 0] ''cpu'',
                  DetectLanguage ''tiny@cpu'' [0, 0, 98, 97],
                  Decode ''tiny@cpu'' [0, 0, 98, 97] \<lparr>fp16 = False, language = Some ''de''\<rparr>]\<rparr>)"
proof -
  from transcribe_success_pipeline [OF demo_run]
  obtain p where p: "map_of demo_probs ''de'' = Some p"
    and t: "transcribe demo_whisper demo_state (Some ''clip.wav'') =
           (Inr (result_text \<lparr>result_tokens = [0, 0, 98, 97], result_text = ''hallo''\<rparr>),
            demo_state\<lparr>stdout := stdout demo_state @
                   [''Detected language: '' @ ''de'' @ '' with probability '' @ format4f demo_whisper p],
              calls := calls demo_state @
                   [LoadAudio ''clip.wav'', PadOrTrim [97, 98],
                    LogMelSpectrogram [97, 98, 0, 0] (device demo_whisper (model demo_state)),
                    DetectLanguage (model demo_state) [0, 0, 98, 97],
                    Decode (model demo_state) [0, 0, 98, 97] \<lparr>fp16 = False, language = Some ''de''\<rparr>]\<rparr>)"
    by (elim exE conjE)
  from p have "p = 9/10" by (simp add: demo_probs_def)
  with t show ?thesis by (simp add: demo_whisper_def demo_state_def)
qed

text \<open>
  C2. Whenever a run of \<^verbatim>\<open>transcribe\<close> calls \<^verbatim>\<open>decode\<close>, the language in its options
  is a key \<open>k\<close> of the probability dictionary that language detection returned for
  the same spectrogram, no key of the dictionary has a higher probability than \<open>k\<close>,
  and every key iterated before \<open>k\<close> has a strictly lower one: \<open>k\<close> is the first key
  of maximal probability. These options are the ones \<^verbatim>\<open>decode\<close> is applied to: what
  the handler returns is read off the value of \<^verbatim>\<open>decode\<close> on the global model, the
  spectrogram and these options.
\<close>

theorem transcribe_language_hint:
  assumes "calls (snd (transcribe W s fp)) = calls s @ cs"
      and "Decode h x opts \<in> set cs"
  shows "\<exists>tok probs k p ys zs.
           detect_language W (model s) x = Inr (tok, probs)
         \<and> language opts = Some k
         \<and> map_of probs k = Some p
         \<and> (\<forall>k' p'. map_of probs k' = Some p' \<longrightarrow> p' \<le> p)
         \<and> map fst probs = ys @ k # zs
         \<and> (\<forall>y\<in>set ys. \<forall>q. map_of probs y = Some q \<longrightarrow> q < p)
         \<and> h = model s
         \<and> fst (transcribe W s fp) =
             (case decode W h x opts of
                Inl e \<Rightarrow> Inr (''Error during decoding: '' @ exn_str e)
              | Inr result \<Rightarrow> Inr (result_text result))"
proof -
  from transcribe_decode_call [OF assms] obtain path audio0 audio tok probs k p where
    fp: "fp = Some path" and h: "h = model s" and
    a1: "load_audio W path (files s path) = Inr audio0" and
    a2: "pad_or_trim W audio0 = Inr audio" and
    a3: "log_mel_spectrogram W audio (device W (model s)) = Inr x" and
    d: "detect_language W (model s) x = Inr (tok, probs)" and
    m: "py_max (map fst probs) (map_of probs) = Inr k" and
    p: "map_of probs k = Some p" and
    o: "opts = \<lparr>fp16 = False, language = Some k\<rparr>"
    by blast
  from py_max_first_max [OF m] obtain ys zs where
    split: "map fst probs = ys @ k # zs" and
    lo: "\<forall>y\<in>set ys. map_of probs y < map_of probs k" and
    hi: "\<forall>z\<in>set zs. map_of probs z \<le> map_of probs k"
    by blast
  have maxi: "\<forall>k' p'. map_of probs k' = Some p' \<longrightarrow> p' \<le> p"
  proof (intro allI impI)
    fix k' p'
    assume k': "map_of probs k' = Some p'"
    then have "k' \<in> set (map fst probs)"
      by (metis map_of_eq_None_iff option.distinct(1) set_map)
    with split have "k' \<in> set ys \<or> k' = k \<or> k' \<in> set zs" by auto
    with lo hi have "map_of probs k' \<le> map_of probs k" by auto
    with k' p show "p' \<le> p" by simp
  qed
  have first: "\<forall>y\<in>set ys. \<forall>q. map_of probs y = Some q \<longrightarrow> q < p"
    using lo p by auto
  from o have l: "language opts = Some k" by simp
  from transcribe_decoding [OF a1 a2 a3 d m p] fp h o
  have out: "fst (transcribe W s fp) =
             (case decode W h x opts of
                Inl e \<Rightarrow> Inr (''Error during decoding: '' @ exn_str e)
              | Inr result \<Rightarrow> Inr (result_text result))"
    by simp
  from d l p maxi split first h out show ?thesis by blast
qed

theorem transcribe_language_hint_witness:
  "Decode ''tiny@cpu'' [0, 0, 98, 97] \<lparr>fp16 = False, language = Some ''de''\<rparr>
     \<in> set (drop (length (calls demo_state))
           (calls (snd (transcribe echo_whisper demo_state (Some ''clip.wav'')))))
   \<and> detect_language echo_whisper (model demo_state) [0, 0, 98, 97] = Inr (50259, demo_probs)
   \<and> map_of demo_probs ''de'' = Some (9/10)
   \<and> (\<exists>p. map_of demo_probs ''de'' = Some p
          \<and> (\<forall>k' p'. map_of demo_probs k' = Some p' \<longrightarrow> p' \<le> p))
   \<and> map fst demo_probs = [''en''] @ ''de'' # [''fr'']
   \<and> map_of demo_probs ''en'' = Some (1/10)
   \<and> fst (transcribe echo_whisper demo_state (Some ''clip.wav'')) = Inr ''hint de''"
proof -
  from transcribe_language_hint [OF echo_trace demo_trace_decode]
  obtain tok probs k p ys zs where
    d: "detect_language echo_whisper (model demo_state) [0, 0, 98, 97] = Inr (tok, probs)" and
    l: "language \<lparr>fp16 = False, language = Some ''de''\<rparr> = Some k" and
    p: "map_of probs k = Some p" and
    maxi: "\<forall>k' p'. map_of probs k' = Some p' \<longrightarrow> p' \<le> p" and
    out: "fst (transcribe echo_whisper demo_state (Some ''clip.wav'')) =
             (case decode echo_whisper ''tiny@cpu'' [0, 0, 98, 97]
                     \<lparr>fp16 = False, language = Some ''de''\<rparr> of
                Inl e \<Rightarrow> Inr (''Error during decoding: '' @ exn_str e)
              | Inr result \<Rightarrow> Inr (result_text result))"
    by blast
  from l have k: "k = ''de''" by simp
  from d have probs: "probs = demo_probs"
    by (simp add: echo_whisper_def demo_whisper_def)
  from p k probs have pv: "p = 9/10" by (simp add: demo_probs_def)
  have c1: "Decode ''tiny@cpu'' [0, 0, 98, 97] \<lparr>fp16 = False, language = Some ''de''\<rparr>
     \<in> set (drop (length (calls demo_state))
           (calls (snd (transcribe echo_whisper demo_state (Some ''clip.wav'')))))"
    by (simp add: echo_trace)
  have c2: "detect_language echo_whisper (model demo_state) [0, 0, 98, 97] = Inr (50259, demo_probs)"
    by (simp add: echo_whisper_def demo_whisper_def)
  from p k probs pv have c3: "map_of demo_probs ''de'' = Some (9/10)" by simp
  from p maxi k probs have c4: "\<exists>p. map_of demo_probs ''de'' = Some p
          \<and> (\<forall>k' p'. map_of demo_probs k' = Some p' \<longrightarrow> p' \<le> p)"
    by (intro exI [of _ p]) simp
  have c5: "map fst demo_probs = [''en''] @ ''de'' # [''fr'']" by (simp add: demo_probs_def)
  have c6: "map_of demo_probs ''en'' = Some (1/10)" by (simp add: demo_probs_def)
  from out have c7: "fst (transcribe echo_whisper demo_state (Some ''clip.wav'')) = Inr ''hint de''"
    by (simp add: echo_decode)
  from c1 c2 c3 c4 c5 c6 c7 show ?thesis by (intro conjI)
qed



section \<open>Startup and the model handle\<close>

text \<open>
  C7. If loading the model raises, the script prints the error and the advice line and
  exits: \<^verbatim>\<open>load_model\<close> has been called once, with the configured size on the CPU
  (no retry, no other size), and whatever requests arrive, none is answered and no
  other library call is made.
\<close>

theorem startup_failure_exits:
  assumes "load_model W WHISPER_MODEL_SIZE ''cpu'' = Inl e"
  shows "main W w requests launch_error =
     (Inl (w\<lparr>stdout := stdout w @
               [''Loading Whisper model: tiny...'',
                ''Error loading Whisper model: '' @ exn_str e,
                ''Please ensure you have an internet connection for download (if not cached) and sufficient memory.''],
             calls := calls w @ [LoadModel ''tiny'' ''cpu'']\<rparr>),
      [])"
  using assms by (simp add: main_def startup_def WHISPER_MODEL_SIZE_def print_def log_call_def)

theorem startup_failure_exits_witness:
  "load_model model_failing_whisper WHISPER_MODEL_SIZE ''cpu'' = Inl boom
   \<and> main model_failing_whisper demo_world [Some ''clip.wav'', None] None =
     (Inl \<lparr>files = [''clip.wav'' \<mapsto> ''ab''],
           stdout = [''Loading Whisper model: tiny...'',
                     ''Error loading Whisper model: boom'',
                     ''Please ensure you have an internet connection for download (if not cached) and sufficient memory.''],
           calls = [LoadModel ''tiny'' ''cpu'']\<rparr>,
      [])"
proof -
  have l: "load_model model_failing_whisper WHISPER_MODEL_SIZE ''cpu'' = Inl boom"
    by (simp add: demo_defs)
  from startup_failure_exits [OF l, of demo_world "[Some ''clip.wav'', None]" None] l
  show ?thesis by (simp add: demo_world_def boom_def)
qed

text \<open>
  C8. A call of \<^verbatim>\<open>transcribe\<close> leaves the model handle as it was, and so does any
  sequence of calls; and in a run of the script that reaches the serving loop, the
  handle is the one \<^verbatim>\<open>load_model\<close> returned and \<^verbatim>\<open>load_model\<close> has been called
  exactly once.
\<close>

theorem model_handle_fixed:
  "model (snd (transcribe W s fp)) = model s
   \<and> model (snd (serve W s requests)) = model s
   \<and> (\<forall>s'. fst (main W w requests launch_error) = Inr s' \<longrightarrow>
         load_model W WHISPER_MODEL_SIZE ''cpu'' = Inr (model s')
       \<and> filter is_LoadModel (calls s')
           = filter is_LoadModel (calls w) @ [LoadModel WHISPER_MODEL_SIZE ''cpu''])"
proof (intro conjI allI impI)
  show "model (snd (transcribe W s fp)) = model s" by (rule transcribe_model)
  show "model (snd (serve W s requests)) = model s" by (rule serve_model)
next
  fix s'
  assume m: "fst (main W w requests launch_error) = Inr s'"
  then obtain s0 where s0: "startup W w = Inr s0"
    by (cases "startup W w") (simp_all add: main_def)
  define s1 where "s1 = print (CHR 0x0A # ''Launching Gradio Web UI...'') s0"
  define s2 where "s2 = snd (serve W s1 requests)"
  have model_s2: "model s2 = model s0"
    by (simp add: s2_def s1_def serve_model)
  have calls_s2: "filter is_LoadModel (calls s2) = filter is_LoadModel (calls s0)"
    by (simp add: s2_def s1_def serve_no_load_model)
  from m s0 have s': "s' = s2 \<or> (\<exists>l1 l2. s' = print l1 (print l2 s2))"
    by (auto simp add: main_def Let_def split_beta s1_def s2_def split: option.splits)
  from s' have model_s': "model s' = model s2" by auto
  from s' have calls_s': "calls s' = calls s2" by auto
  from startup_loaded [OF s0] model_s' model_s2
  show "load_model W WHISPER_MODEL_SIZE ''cpu'' = Inr (model s')" by simp
  from startup_loaded [OF s0] calls_s' calls_s2
  show "filter is_LoadModel (calls s')
           = filter is_LoadModel (calls w) @ [LoadModel WHISPER_MODEL_SIZE ''cpu'']"
    by simp
qed

theorem model_handle_fixed_witness:
  "model (snd (transcribe demo_whisper demo_state (Some ''clip.wav''))) = ''tiny@cpu''
   \<and> model (snd (serve demo_whisper demo_state [Some ''clip.wav'', None])) = ''tiny@cpu''
   \<and> load_model demo_whisper WHISPER_MODEL_SIZE ''cpu'' = Inr ''tiny@cpu''
   \<and> (\<exists>s'. fst (main demo_whisper demo_world [Some ''clip.wav'', None, Some ''missing.wav''] None)
               = Inr s'
          \<and> model s' = ''tiny@cpu''
          \<and> filter is_LoadModel (calls s') = [LoadModel ''tiny'' ''cpu''])"
proof -
  note fixed = model_handle_fixed [of demo_whisper demo_state "Some ''clip.wav''"
      "[Some ''clip.wav'', None, Some ''missing.wav'']" demo_world None]
  note fixed2 = model_handle_fixed [of demo_whisper demo_state "Some ''clip.wav''"
      "[Some ''clip.wav'', None]" demo_world None]
  from fixed have t: "model (snd (transcribe demo_whisper demo_state (Some ''clip.wav''))) = model demo_state"
    by (elim conjE)
  from fixed2 have sv: "model (snd (serve demo_whisper demo_state [Some ''clip.wav'', None])) = model demo_state"
    by (elim conjE)
  from fixed have "\<forall>s'. fst (main demo_whisper demo_world
            [Some ''clip.wav'', None, Some ''missing.wav''] None) = Inr s' \<longrightarrow>
         load_model demo_whisper WHISPER_MODEL_SIZE ''cpu'' = Inr (model s')
       \<and> filter is_LoadModel (calls s')
           = filter is_LoadModel (calls demo_world) @ [LoadModel WHISPER_MODEL_SIZE ''cpu'']"
    by (elim conjE)
  with demo_main have m: "load_model demo_whisper WHISPER_MODEL_SIZE ''cpu'' = Inr ''tiny@cpu''"
    by (simp add: demo_world_def WHISPER_MODEL_SIZE_def)
  from t sv m demo_main show ?thesis by (simp add: demo_state_def)
qed

section \<open>What the outcome depends on\<close>

text \<open>
  X2. A frame property of the handler: its outcome does not read the lines printed so
  far, the library calls made so far, or any file other than the one at the given
  path. Two states that agree on the model handle and on the file at the path give the
  same outcome. The library calls are functions of their arguments in this model, so
  this says nothing about whether the library itself repeats its results.
\<close>

theorem transcribe_outcome_frame:
  assumes "model s1 = model s2"
      and "\<forall>path. fp = Some path \<longrightarrow> files s1 path = files s2 path"
  shows "fst (transcribe W s1 fp) = fst (transcribe W s2 fp)"
proof (cases fp)
  case None
  then show ?thesis by (simp add: transcribe_def)
next
  case (Some path)
  with assms(2) have "files s1 path = files s2 path" by simp
  with assms(1) Some show ?thesis
    by (simp add: transcribe_def Let_def split: sum.splits option.splits prod.splits)
qed

theorem transcribe_outcome_frame_witness:
  "model demo_state = model busy_state
   \<and> files demo_state ''clip.wav'' = files busy_state ''clip.wav''
   \<and> demo_state \<noteq> busy_state
   \<and> fst (transcribe demo_whisper demo_state (Some ''clip.wav''))
       = fst (transcribe demo_whisper busy_state (Some ''clip.wav''))"
proof -
  have m: "model demo_state = model busy_state" by (simp add: demo_defs)
  have f: "\<forall>path. Some ''clip.wav'' = Some path \<longrightarrow> files demo_state path = files busy_state path"
    by (simp add: demo_defs)
  have d: "demo_state \<noteq> busy_state" by (simp add: demo_defs)
  from transcribe_outcome_frame [OF m f] m f d show ?thesis by simp
qed

end
